theory Spec2Isabelle
  imports Main "HOL-Library.Sublist"
begin

section \<open>Data of the web layer (app.py)\<close>

text \<open>
  The user record kept by the token store. app.py reads the keys \<open>login\<close> and
  \<open>full_access\<close> of it; the stable identity id is the one of the spec's data model
  (section 3), which the access rule of section 4.3 needs.
\<close>

record user =
  user_id :: string
  login :: string
  full_access :: bool

datatype stream_kind = Public_channel | Private_group | Direct_message

text \<open>A stream document; app.py reads its key \<open>_id\<close> (here \<open>stream_id\<close>).\<close>

record stream =
  stream_id :: string
  kind :: stream_kind
  name :: string
  members :: "string list"

text \<open>A message, keyed by stream id and send timestamp (spec, section 3).\<close>

record message =
  msg_stream :: string
  msg_ts :: string
  author :: string
  body :: string
  subtype :: string
  parent :: "string option"

text \<open>The audit record of one import run (spec, section 3).\<close>

record import_batch =
  source :: string
  inserted :: nat
  skipped :: nat
  malformed :: nat
  new_subtypes :: "string list"

text \<open>
  The bodies of the two Slack API calls of the login flow. A successful
  \<open>oauth.access\<close> carries \<open>access_token\<close> and \<open>scope\<close>, a successful
  \<open>auth.test\<close> carries \<open>team_id\<close>, \<open>team\<close> and \<open>user\<close>.
\<close>

record oauth_body =
  access_token :: string
  scope :: string

record api_auth =
  team_id :: string
  team :: string
  api_user :: string

text \<open>
  A call of the Slacker client returns a body, raises \<open>slacker.Error\<close> (caught by the
  handlers; the string is \<open>str(err)\<close>), or raises something else, which no handler
  catches.
\<close>

datatype 'a api_result = Api_ok 'a | Api_error string | Api_crash

datatype error =
    ValueError
  | KeyError
  | TokenLookupError
  | ArchiveUnreadableError
  | SlackCrash
  | NotFound

text \<open>
  A request as the handlers read it: path, query arguments, cookies, the two inputs of
  the HTTPS hook, the full URL, and the file name of the uploaded \<open>archive\<close> part
  (a \<open>FileStorage\<close> is truthy when its file name is not empty).
\<close>

record request =
  path :: string
  args :: "string \<rightharpoonup> string"
  cookies :: "string \<rightharpoonup> string"
  is_secure :: bool
  x_forwarded_proto :: "string option"
  url :: string
  files_archive :: "string option"

text \<open>
  Pieces of HTML: a literal, or Python's \<open>str\<close> of a value whose printed form belongs
  to code outside app.py.
\<close>

datatype html = Lit string | Str_batch import_batch | Str_types "string list"

text \<open>
  What a handler returns. \<open>Search_htm rs None\<close> is \<open>search.htm\<close> rendered with
  \<open>results\<close> alone; the other form carries \<open>total, q, s, c, p, n\<close>.
\<close>

datatype page =
    Search_htm "message list" "(nat \<times> string \<times> string \<times> string \<times> int \<times> nat) option"
  | Browse_htm "stream list" "stream list" "stream list" string bool
  | Stream_htm "message list" nat string int nat
  | Basic_htm string "html list"
  | Redirect_htm string string
  | Redirect string nat
  | Send_from_directory string
  | Users_body string

text \<open>
  The effects of a handler, in program order: every call into the token store, the
  database, the archive, the Slack client, and every change of the response's cookies.
  A database document is listed without its \<open>_id\<close>, which is the wall-clock time of
  the insertion.
\<close>

datatype event =
    Tokens_is_known_user "string option"
  | Tokens_getitem "string option"
  | Tokens_upsert string api_auth bool
  | Tokens_delitem "string option"
  | Db_insert string "(string \<times> string) list"
  | Has_stream_access user string
  | Filter_streams user string
  | Find_messages string "string list" int
  | Find_messages_in_stream string string int
  | Find_messages_around string string int
  | Stream_messages string int
  | Users_list "string option"
  | Stat
  | Import_archive
  | Streams_fetch string
  | Oauth_access string string
  | Auth_test string
  | Set_cookie string string
  | Delete_cookie string
  | Save_archive string

text \<open>
  The collaborators of app.py whose code is in other modules (\<open>store\<close>,
  \<open>slack_archive\<close>, \<open>slacker\<close>, Flask, the file system), as the values they return.
  The archive reads are functions of their arguments: they read the canonical
  collections, which no handler of app.py writes except through \<open>import_archive\<close> and
  \<open>streams_fetch\<close>, and these end the handlers that call them.
\<close>

record deps =
  is_known_user :: "string option \<Rightarrow> bool"
  tokens_getitem :: "string option \<Rightarrow> error + user"
  tokens_upsert :: "string \<Rightarrow> api_auth \<Rightarrow> bool \<Rightarrow> string"
  has_stream_access :: "user \<Rightarrow> string \<Rightarrow> bool"
  filter_streams :: "user \<Rightarrow> string \<Rightarrow> stream list \<times> stream list \<times> stream list \<times> string"
  find_messages :: "string \<Rightarrow> string list \<Rightarrow> int \<Rightarrow> message list \<times> nat"
  find_messages_in_stream :: "string \<Rightarrow> string \<Rightarrow> int \<Rightarrow> message list \<times> nat"
  find_messages_around :: "string \<Rightarrow> string \<Rightarrow> int \<Rightarrow> message list \<times> nat"
  stream_messages :: "string \<Rightarrow> int \<Rightarrow> message list \<times> nat"
  users_list :: "string option \<Rightarrow> string"
  archive_stat :: "(string \<times> string) list"
  import_archive :: "error + import_batch \<times> string list"
  oauth_access :: "string \<Rightarrow> string \<Rightarrow> oauth_body api_result"
  auth_test :: "string \<Rightarrow> api_auth api_result"
  static_isfile :: "string \<Rightarrow> bool"
  flask_send_from_directory :: "string \<Rightarrow> bool"
  flask_url_for :: "string \<Rightarrow> string"
  messages_number_per_search_request :: nat
  messages_number_per_stream_request :: nat
  local_archive_file :: string

text \<open>The configuration read from the environment when the module is loaded.\<close>

record config =
  slack_client_id :: string
  slack_client_secret :: string
  slack_team_id :: string
  dunder_name :: string
  debug_server :: "string option"

section \<open>Handlers as computations with a trace\<close>

text \<open>
  A computation yields the events it caused and then a value or the exception that
  ended it. The events before a raise have happened.
\<close>

type_synonym 'a act = "event list \<times> (error + 'a)"

definition ret :: "'a \<Rightarrow> 'a act" where
  "ret x = ([], Inr x)"

definition raise :: "error \<Rightarrow> 'a act" where
  "raise e = ([], Inl e)"

definition emit :: "event \<Rightarrow> unit act" where
  "emit ev = ([ev], Inr ())"

definition bind_act :: "'a act \<Rightarrow> ('a \<Rightarrow> 'b act) \<Rightarrow> 'b act" where
  "bind_act m f =
     (case m of
        (t, Inl e) \<Rightarrow> (t, Inl e)
      | (t, Inr x) \<Rightarrow> (case f x of (t', r) \<Rightarrow> (t @ t', r)))"

definition seq_act :: "unit act \<Rightarrow> 'b act \<Rightarrow> 'b act" where
  "seq_act m k = bind_act m (\<lambda>_. k)"

definition lift_result :: "error + 'a \<Rightarrow> 'a act" where
  "lift_result r = ([], r)"

definition call :: "event \<Rightarrow> 'a \<Rightarrow> 'a act" where
  "call ev x = ([ev], Inr x)"

definition call_result :: "event \<Rightarrow> error + 'a \<Rightarrow> 'a act" where
  "call_result ev r = ([ev], r)"

section \<open>Reading the request\<close>

text \<open>
  Python's \<open>int\<close> on a string of ASCII characters: white space around the literal is
  dropped, a sign may lead, and one or more decimal digits must follow; anything else
  raises \<open>ValueError\<close>. White space and digits beyond ASCII, which \<open>int\<close> also
  accepts in a Unicode string, are not part of this model.
\<close>

definition py_isspace :: "char \<Rightarrow> bool" where
  "py_isspace c = (c \<in> set [CHR '' '', CHR 0x09, CHR 0x0A, CHR 0x0B, CHR 0x0C, CHR 0x0D])"

definition py_strip :: "string \<Rightarrow> string" where
  "py_strip s = rev (dropWhile py_isspace (rev (dropWhile py_isspace s)))"

definition is_digit :: "char \<Rightarrow> bool" where
  "is_digit c = (48 \<le> (of_char c :: nat) \<and> (of_char c :: nat) \<le> 57)"

definition digits_val :: "string \<Rightarrow> nat" where
  "digits_val ds = foldl (\<lambda>a c. 10 * a + (of_char c - 48)) 0 ds"

definition py_int :: "string \<Rightarrow> error + int" where
  "py_int s =
     (let t = py_strip s;
          neg = (case t of c # _ \<Rightarrow> c = CHR ''-'' | [] \<Rightarrow> False);
          ds = (case t of c # cs \<Rightarrow> if c = CHR ''-'' \<or> c = CHR ''+'' then cs else t | [] \<Rightarrow> [])
      in if ds \<noteq> [] \<and> list_all is_digit ds
         then Inr (if neg then - int (digits_val ds) else int (digits_val ds))
         else Inl ValueError)"

text \<open>\<open>flask.request.args.get(k, default)\<close>.\<close>

definition get_arg :: "request \<Rightarrow> string \<Rightarrow> string \<Rightarrow> string" where
  "get_arg r k dflt = (case args r k of None \<Rightarrow> dflt | Some v \<Rightarrow> v)"

text \<open>\<open>int(flask.request.args.get('p', 0))\<close>: the default is the number 0.\<close>

definition page_arg :: "request \<Rightarrow> int act" where
  "page_arg r = (case args r ''p'' of None \<Rightarrow> ret 0 | Some v \<Rightarrow> lift_result (py_int v))"

text \<open>\<open>self.tokens[flask.request.cookies.get('auth')]\<close>.\<close>

definition current_user :: "deps \<Rightarrow> request \<Rightarrow> user act" where
  "current_user d r =
     call_result (Tokens_getitem (cookies r ''auth'')) (tokens_getitem d (cookies r ''auth''))"

section \<open>The routes /search and /browse\<close>

definition access_denied_html :: string where
  "access_denied_html =
     ''<div class=\"jumbotron\" align=\"center\">  <h1>Access denied</h1></div>''"

definition report_access_denied :: "deps \<Rightarrow> request \<Rightarrow> page act" where
  "report_access_denied d r =
     bind_act (current_user d r) (\<lambda>user_info.
     seq_act (emit (Db_insert ''z_access'' [(''user'', login user_info), (''page'', url r)]))
       (ret (Basic_htm ''Access denied'' [Lit access_denied_html])))"

text \<open>
  \<open>streams[:-1]\<close> drops the filter name of the tuple, \<open>itertools.chain\<close> joins the three
  lists, and the comprehension takes each \<open>_id\<close>.
\<close>

definition stream_ids_of :: "stream list \<times> stream list \<times> stream list \<times> string \<Rightarrow> string list" where
  "stream_ids_of streams =
     (case streams of (public, private, direct, filter_name) \<Rightarrow>
        map stream_id (public @ private @ direct))"

definition render_search ::
  "deps \<Rightarrow> string \<Rightarrow> string \<Rightarrow> string \<Rightarrow> int \<Rightarrow> message list \<times> nat \<Rightarrow> page act" where
  "render_search d query stream context page found =
     (case found of (results, msg_count) \<Rightarrow>
        ret (Search_htm results
          (Some (msg_count, query, stream, context, page, messages_number_per_search_request d))))"

definition search :: "deps \<Rightarrow> request \<Rightarrow> page act" where
  "search d r =
     bind_act (current_user d r) (\<lambda>user.
     let query = get_arg r ''q'' '''';
         stream = get_arg r ''s'' '''';
         context = get_arg r ''c'' ''''
     in
     bind_act (page_arg r) (\<lambda>page.
     seq_act (emit (Db_insert ''z_search'' [(''user'', login user), (''q'', query)]))
       (if query = '''' then ret (Search_htm [] None)
        else
          bind_act
            (if stream \<noteq> ''''
             then call (Has_stream_access user stream) (\<not> has_stream_access d user stream)
             else ret False) (\<lambda>denied.
          if denied then report_access_denied d r
          else if context \<noteq> '''' then
            bind_act (call (Find_messages_around context stream page)
                        (find_messages_around d context stream page))
              (render_search d query stream context page)
          else if stream \<noteq> '''' then
            bind_act (call (Find_messages_in_stream query stream page)
                        (find_messages_in_stream d query stream page))
              (render_search d query stream context page)
          else
            bind_act (call (Filter_streams user ''all'') (filter_streams d user ''all''))
              (\<lambda>streams.
            let stream_ids = stream_ids_of streams in
            bind_act (call (Find_messages query stream_ids page)
                        (find_messages d query stream_ids page))
              (render_search d query stream context page))))))"

definition browse :: "deps \<Rightarrow> request \<Rightarrow> page act" where
  "browse d r =
     bind_act (current_user d r) (\<lambda>user_info.
     let stream = get_arg r ''s'' '''' in
     bind_act (page_arg r) (\<lambda>page.
     seq_act (emit (Db_insert ''z_browse'' [(''user'', login user_info), (''s'', stream)]))
       (if stream = '''' then
          (let filter_name = get_arg r ''filter'' ''my'' in
           bind_act (call (Filter_streams user_info filter_name)
                       (filter_streams d user_info filter_name))
             (\<lambda>(public, private, direct, filter_name).
                ret (Browse_htm public private direct filter_name (full_access user_info))))
        else
          bind_act (call (Has_stream_access user_info stream)
                      (has_stream_access d user_info stream)) (\<lambda>ok.
          if \<not> ok then report_access_denied d r
          else
            bind_act (call (Stream_messages stream page) (stream_messages d stream page))
              (\<lambda>(results, streams_cnt).
                 ret (Stream_htm results streams_cnt stream page
                        (messages_number_per_stream_request d)))))))"

section \<open>Production mode and the import routes\<close>

definition is_forced_debug :: "config \<Rightarrow> bool" where
  "is_forced_debug c = ((case debug_server c of None \<Rightarrow> ''0'' | Some v \<Rightarrow> v) = ''1'')"

definition is_production :: "config \<Rightarrow> bool" where
  "is_production c = (dunder_name c = ''app'' \<or> is_forced_debug c)"

text \<open>\<open>s.replace(old, new, 1)\<close> for a non-empty \<open>old\<close>: the first occurrence only.\<close>

fun replace_first :: "string \<Rightarrow> string \<Rightarrow> string \<Rightarrow> string" where
  "replace_first old new [] = []"
| "replace_first old new (c # cs) =
     (if prefix old (c # cs) then new @ drop (length old) (c # cs)
      else c # replace_first old new cs)"

definition url_for :: "config \<Rightarrow> deps \<Rightarrow> string \<Rightarrow> string" where
  "url_for c d endpoint =
     (let url = flask_url_for d endpoint in
      if is_production c then replace_first ''http://'' ''https://'' url else url)"

definition upload_form_html :: string where
  "upload_form_html =
     ''<form action=\"\" method=\"POST\" enctype=\"multipart/form-data\">'' @
     '' <div class=\"input-group input-group-lg col-md-7\" align=\"center\">'' @
     ''  <span class=\"input-group-addon\">Select .zip archive</span>'' @
     ''   <input type=\"file\" name=\"archive\" class=\"form-control\"/>'' @
     ''   <span class=\"input-group-btn\">'' @
     ''    <input type=\"submit\" class=\"btn btn-primary\" value=\"Import\"/>'' @
     ''   </span>'' @
     ''  </span>'' @
     '' </div>'' @
     ''</form>''"

definition upload :: "config \<Rightarrow> deps \<Rightarrow> request \<Rightarrow> page act" where
  "upload c d r =
     (if is_production c then ret (Redirect_htm ''/browse'' ''Access denied'')
      else
        (case files_archive r of
           Some filename \<Rightarrow>
             if filename \<noteq> '''' \<and> suffix ''.zip'' filename then
               seq_act (emit (Save_archive (local_archive_file d)))
                 (ret (Redirect_htm ''/import_db'' (filename @ '' saved'')))
             else ret (Basic_htm ''Archive upload'' [Lit upload_form_html])
         | None \<Rightarrow> ret (Basic_htm ''Archive upload'' [Lit upload_form_html])))"

definition import_db :: "config \<Rightarrow> deps \<Rightarrow> page act" where
  "import_db c d =
     (if is_production c then ret (Redirect_htm ''/browse'' ''Access denied'')
      else
        bind_act (call_result Import_archive (import_archive d)) (\<lambda>(result, types_new).
        ret (Basic_htm ''Archive import complete''
               [Lit ''Import complete!<br />'', Str_batch result, Lit ''<br/>'',
                Str_types types_new])))"

section \<open>The hooks that run before every request\<close>

definition redirect_to_https :: "config \<Rightarrow> request \<Rightarrow> page option" where
  "redirect_to_https c r =
     (let is_http = (is_secure r \<or> x_forwarded_proto r = Some ''http'') in
      if is_http \<and> is_production c
      then Some (Redirect (replace_first ''http://'' ''https://'' (url r)) 301)
      else None)"

definition check_auth :: "deps \<Rightarrow> request \<Rightarrow> page option act" where
  "check_auth d r =
     bind_act (call (Tokens_is_known_user (cookies r ''auth''))
                 (is_known_user d (cookies r ''auth''))) (\<lambda>known.
     if known then ret None
     else if path r \<in> set [''/login''] \<or> static_isfile d (drop 1 (path r)) then ret None
     else ret (Some (Redirect_htm ''/login'' ''Auth required'')))"

section \<open>The login flow\<close>

definition login_success :: "deps \<Rightarrow> string \<Rightarrow> api_auth \<Rightarrow> bool \<Rightarrow> page act" where
  "login_success d token api_user_info identity_only =
     bind_act (call (Tokens_upsert token api_user_info (\<not> identity_only))
                 (tokens_upsert d token api_user_info (\<not> identity_only))) (\<lambda>auth_key.
     seq_act (emit (Db_insert ''z_logins'' [(''user'', api_user api_user_info)]))
    (seq_act (emit (Set_cookie ''auth'' auth_key))
    (seq_act (emit (Streams_fetch token))
       (ret (Redirect ''/browse'' 302)))))"

definition login_with_token :: "config \<Rightarrow> deps \<Rightarrow> string \<Rightarrow> bool \<Rightarrow> page act" where
  "login_with_token c d token identity_only =
     bind_act (call (Auth_test token) (auth_test d token)) (\<lambda>res.
     case res of
       Api_crash \<Rightarrow> raise SlackCrash
     | Api_error err \<Rightarrow>
         seq_act (emit (Db_insert ''z_errors'' [(''ctx'', ''auth.test''), (''msg'', err)]))
           (ret (Basic_htm ''Auth error'' [Lit (''Auth error: '' @ err)]))
     | Api_ok api_auth \<Rightarrow>
         if team_id api_auth \<noteq> slack_team_id c
         then ret (Basic_htm ''Wrong team'' [Lit (''Wrong team: '' @ team api_auth)])
         else login_success d token api_auth identity_only)"

definition login_oauth :: "config \<Rightarrow> deps \<Rightarrow> request \<Rightarrow> page act" where
  "login_oauth c d r =
     (case args r ''code'' of
        None \<Rightarrow> raise KeyError
      | Some code \<Rightarrow>
          (let redirect_uri = url_for c d ''login'' in
           bind_act (call (Oauth_access code redirect_uri) (oauth_access d code redirect_uri))
             (\<lambda>res.
           case res of
             Api_crash \<Rightarrow> raise SlackCrash
           | Api_error err \<Rightarrow>
               seq_act (emit (Db_insert ''z_errors'' [(''ctx'', ''oauth''), (''msg'', err)]))
                 (ret (Basic_htm ''OAuth error'' [Lit (''OAuth error: '' @ err)]))
           | Api_ok oauth \<Rightarrow>
               (let token = access_token oauth;
                    identity_only = (count_list (scope oauth) (CHR '','') = 1)
                in login_with_token c d token identity_only))))"

definition login_link :: "config \<Rightarrow> string" where
  "login_link c =
     ''https://slack.com/oauth/authorize?team='' @ slack_team_id c @
     ''&client_id='' @ slack_client_id c @ ''&scope=identify''"

definition token_link :: "config \<Rightarrow> string" where
  "token_link c =
     ''https://slack.com/oauth/authorize?team='' @ slack_team_id c @
     ''&client_id='' @ slack_client_id c @ ''&scope=identify,files:read,'' @
     ''channels:read,channels:history,groups:history,groups:read,'' @
     ''im:history,im:read,mpim:read,mpim:history,stars:read''"

definition login_html :: "string \<Rightarrow> string \<Rightarrow> string" where
  "login_html basic advanced =
     ''<div class=\"jumbotron\" align=\"center\">'' @
     ''  <h1>You have to authenticate first:</h1>'' @
     ''  <a class=\"btn btn-default btn-lg\" href=\"'' @ basic @ ''\">'' @
     ''    <img src=\"https://slack.com/favicon.ico\" width=\"24\"/>'' @
     ''    Basic (public channels)'' @
     ''  </a>'' @
     ''  &nbsp;'' @
     ''  <a class=\"btn btn-default btn-lg\" href=\"'' @ advanced @ ''\">'' @
     ''    <img src=\"https://slack.com/favicon.ico\" width=\"24\"/>'' @
     ''    Advanced (import private messaging)'' @
     ''  </a>'' @
     ''</div>''"

definition login_route :: "config \<Rightarrow> deps \<Rightarrow> request \<Rightarrow> page act" where
  "login_route c d r =
     (if (case args r ''code'' of None \<Rightarrow> False | Some v \<Rightarrow> v \<noteq> '''') then login_oauth c d r
      else
        (let auth = ''&redirect_uri='' @ url_for c d ''login'' in
         ret (Basic_htm ''Login'' [Lit (login_html (login_link c @ auth) (token_link c @ auth))])))"

section \<open>The remaining routes and the dispatch of a request\<close>

definition index :: "deps \<Rightarrow> request \<Rightarrow> page act" where
  "index d r =
     bind_act (call (Tokens_is_known_user (cookies r ''auth''))
                 (is_known_user d (cookies r ''auth''))) (\<lambda>known.
     if known then ret (Redirect ''/browse'' 302)
     else ret (Redirect_htm ''/login'' ''Auth required''))"

definition users :: "deps \<Rightarrow> request \<Rightarrow> page act" where
  "users d r =
     (let domain = args r ''domain'' in
      call (Users_list domain) (Users_body (users_list d domain)))"

definition stat_head_html :: string where
  "stat_head_html =
     ''<div class=\"col-md-6\">'' @
     '' <div class=\"panel panel-default\" align=\"center\">'' @
     ''  <div class=\"panel-heading\">'' @
     ''   <h3 class=\"panel-title\">Statistics</h3>'' @
     ''  </div>'' @
     ''  <table class=\"table\">''"

definition stat :: "deps \<Rightarrow> page act" where
  "stat d =
     bind_act (call Stat (archive_stat d)) (\<lambda>stat.
     ret (Basic_htm ''Statistics''
            ([Lit stat_head_html] @
             map (\<lambda>(k, v). Lit (''<tr><th>'' @ k @ ''</th><td>'' @ v @ ''</td></tr>'')) stat @
             [Lit (''  </table>'' @ '' </div>'' @ ''</div>'')])))"

definition logout :: "deps \<Rightarrow> request \<Rightarrow> page act" where
  "logout d r =
     (let enc_key = cookies r ''auth'' in
      bind_act (call_result (Tokens_getitem enc_key) (tokens_getitem d enc_key)) (\<lambda>user_info.
      seq_act (emit (Db_insert ''z_logouts'' [(''user'', login user_info)]))
     (seq_act (emit (Delete_cookie ''auth''))
     (seq_act (emit (Tokens_delitem enc_key))
        (ret (Redirect_htm ''https://slack.com'' ''Bye''))))))"

text \<open>
  \<open>flask.send_from_directory(self.static_folder, filename)\<close> is Flask's: whether it
  sends the file or answers 404 (a file that is not there, a path that leaves the
  folder) is the parameter \<open>flask_send_from_directory\<close>.
\<close>

definition send_file :: "deps \<Rightarrow> string \<Rightarrow> page act" where
  "send_file d filename =
     (if flask_send_from_directory d filename then ret (Send_from_directory filename)
      else raise NotFound)"

text \<open>
  The route table that \<open>_hook_routes\<close> registers from the \<open>FlaskExt.route\<close>
  decorations: the literal rules first, then the rule \<open>/static/<path:filename>\<close> that
  Flask adds for the static folder and that serves the file the same way, then the
  catch-all \<open>/<path:filename>\<close>; both need a non-empty file name. The request method is
  not part of a request here: the routes are those of a GET (and of a POST to /import).
\<close>

definition route :: "config \<Rightarrow> deps \<Rightarrow> request \<Rightarrow> page act" where
  "route c d r =
     (if path r = ''/'' then index d r
      else if path r = ''/users'' then users d r
      else if path r = ''/stat'' then stat d
      else if path r = ''/login'' then login_route c d r
      else if path r = ''/logout'' then logout d r
      else if path r = ''/search'' then search d r
      else if path r = ''/browse'' then browse d r
      else if path r = ''/import'' then upload c d r
      else if path r = ''/import_db'' then import_db c d
      else if prefix ''/static/'' (path r) \<and> drop 8 (path r) \<noteq> ''''
        then send_file d (drop 8 (path r))
      else
        (case path r of
           c0 # filename \<Rightarrow>
             if c0 = CHR ''/'' \<and> filename \<noteq> '''' then send_file d filename else raise NotFound
         | [] \<Rightarrow> raise NotFound))"

text \<open>
  A request of the fully initialised server: the two \<open>before_request\<close> hooks run in
  the order of their registration (\<open>_redirect_to_https\<close>, then \<open>_check_auth\<close>); the
  first one that returns a response answers the request and the route handler does not
  run.
\<close>

definition serve :: "config \<Rightarrow> deps \<Rightarrow> request \<Rightarrow> page act" where
  "serve c d r =
     (case redirect_to_https c r of
        Some resp \<Rightarrow> ret resp
      | None \<Rightarrow>
          bind_act (check_auth d r) (\<lambda>rv.
          case rv of
            Some resp \<Rightarrow> ret resp
          | None \<Rightarrow> route c d r))"

text \<open>The events that read or write the archive.\<close>

fun archive_read :: "event \<Rightarrow> bool" where
  "archive_read (Find_messages q ids p) = True"
| "archive_read (Find_messages_in_stream q s p) = True"
| "archive_read (Find_messages_around c s p) = True"
| "archive_read (Stream_messages s p) = True"
| "archive_read (Has_stream_access u s) = True"
| "archive_read (Filter_streams u f) = True"
| "archive_read (Users_list domain) = True"
| "archive_read Stat = True"
| "archive_read _ = False"

fun archive_write :: "event \<Rightarrow> bool" where
  "archive_write Import_archive = True"
| "archive_write (Streams_fetch t) = True"
| "archive_write _ = False"

fun db_write :: "event \<Rightarrow> bool" where
  "db_write (Db_insert coll doc) = True"
| "db_write _ = False"

text \<open>The four message queries of the archive, which the claims call archive reads.\<close>

fun message_query :: "event \<Rightarrow> bool" where
  "message_query (Find_messages q ids p) = True"
| "message_query (Find_messages_in_stream q s p) = True"
| "message_query (Find_messages_around c s p) = True"
| "message_query (Stream_messages s p) = True"
| "message_query _ = False"

section \<open>AccessControl (spec, section 4.3)\<close>

text \<open>
  Modelled from the spec: the module \<open>slack_archive\<close>, which holds the access rule, is
  not among the sources. The visibility rule by stream kind: a public channel is visible
  to any authenticated user; a private group or a direct message is visible only if the
  user is a member and the credential scope is \<open>full_access\<close>.
\<close>

definition visible :: "user \<Rightarrow> stream \<Rightarrow> bool" where
  "visible u s =
     (case kind s of
        Public_channel \<Rightarrow> True
      | Private_group \<Rightarrow> user_id u \<in> set (members s) \<and> full_access u
      | Direct_message \<Rightarrow> user_id u \<in> set (members s) \<and> full_access u)"

text \<open>
  Modelled from the spec: an unrecognised or absent filter name normalises to the
  default, which app.py gives as \<open>my\<close>; \<open>all\<close> is the other name app.py uses.
\<close>

definition resolveFilter :: "string \<Rightarrow> string" where
  "resolveFilter filterName = (if filterName = ''all'' then ''all'' else ''my'')"

text \<open>
  Modelled from the spec: \<open>filterStreams(user, filterName)\<close> returns the visible
  streams partitioned by kind, and the resolved name. What \<open>my\<close> keeps beyond
  visibility is left open by the spec (section 9) and is the parameter \<open>mine\<close>.
\<close>

definition filterStreams ::
  "(user \<Rightarrow> stream \<Rightarrow> bool) \<Rightarrow> stream list \<Rightarrow> user \<Rightarrow> string
     \<Rightarrow> stream list \<times> stream list \<times> stream list \<times> string" where
  "filterStreams mine streams u filterName =
     (let resolved = resolveFilter filterName;
          shown = filter (\<lambda>s. visible u s \<and> (resolved = ''all'' \<or> mine u s)) streams
      in (filter (\<lambda>s. kind s = Public_channel) shown,
          filter (\<lambda>s. kind s = Private_group) shown,
          filter (\<lambda>s. kind s = Direct_message) shown,
          resolved))"

text \<open>
  Modelled from the spec: \<open>hasStreamAccess(user, streamId)\<close> decides by the same
  visibility rule whether the stream of that id may be read.
\<close>

definition hasStreamAccess :: "stream list \<Rightarrow> user \<Rightarrow> string \<Rightarrow> bool" where
  "hasStreamAccess streams u streamId =
     list_ex (\<lambda>s. stream_id s = streamId \<and> visible u s) streams"

section \<open>ImportPipeline (spec, section 4.1)\<close>

text \<open>
  Modelled from the spec: the archive source is a container that is unreadable, or
  readable with an identifier and its message records, each well formed or malformed.
\<close>

datatype entry = Well_formed message | Malformed_record

datatype archive = Unreadable | Readable string "entry list"

text \<open>
  Modelled from the spec: the canonical Messages collection, one message per
  composite key (stream id, send timestamp), and the append-only ImportBatches.
\<close>

record store =
  messages :: "string \<times> string \<rightharpoonup> message"
  batches :: "import_batch list"

record import_run =
  run_messages :: "string \<times> string \<rightharpoonup> message"
  run_inserted :: nat
  run_skipped :: nat
  run_malformed :: nat
  run_new :: "string list"

text \<open>
  Modelled from the spec: a malformed record is skipped and counted; a message whose
  key exists is a no-op counted as skipped, otherwise it is inserted and counted; a
  subtype seen in no prior batch is recorded as new.
\<close>

fun import_entry :: "string list \<Rightarrow> entry \<Rightarrow> import_run \<Rightarrow> import_run" where
  "import_entry known Malformed_record run = run\<lparr>run_malformed := Suc (run_malformed run)\<rparr>"
| "import_entry known (Well_formed m) run =
     (let key = (msg_stream m, msg_ts m);
          run1 = (if subtype m \<in> set known \<or> subtype m \<in> set (run_new run) then run
                  else run\<lparr>run_new := run_new run @ [subtype m]\<rparr>)
      in case run_messages run key of
           Some old \<Rightarrow> run1\<lparr>run_skipped := Suc (run_skipped run)\<rparr>
         | None \<Rightarrow> run1\<lparr>run_messages := (run_messages run)(key \<mapsto> m),
                         run_inserted := Suc (run_inserted run)\<rparr>)"

fun import_entries :: "string list \<Rightarrow> entry list \<Rightarrow> import_run \<Rightarrow> import_run" where
  "import_entries known [] run = run"
| "import_entries known (e # es) run = import_entries known es (import_entry known e run)"

text \<open>
  Modelled from the spec: \<open>import(archivePath) -> (ImportBatch, newSubtypes)\<close>. Only
  an unreadable container fails the call; the batch is appended to the audit trail.
\<close>

definition importArchive :: "archive \<Rightarrow> store \<Rightarrow> error + store \<times> import_batch \<times> string list" where
  "importArchive a s =
     (case a of
        Unreadable \<Rightarrow> Inl ArchiveUnreadableError
      | Readable src es \<Rightarrow>
          (let known = concat (map new_subtypes (batches s));
               run = import_entries known es
                       \<lparr>run_messages = messages s, run_inserted = 0, run_skipped = 0,
                        run_malformed = 0, run_new = []\<rparr>;
               batch = \<lparr>source = src, inserted = run_inserted run, skipped = run_skipped run,
                        malformed = run_malformed run, new_subtypes = run_new run\<rparr>
           in Inr (s\<lparr>messages := run_messages run, batches := batches s @ [batch]\<rparr>,
                   batch, run_new run)))"

section \<open>Sample inputs\<close>

text \<open>
  A user with the identify-only scope who has access to no stream, an archive that
  answers every context query with a message of a private group, and a request of that
  user.
\<close>

definition alice :: user where
  "alice = \<lparr>user_id = ''U1'', login = ''alice'', full_access = False\<rparr>"

definition secret :: message where
  "secret = \<lparr>msg_stream = ''G7'', msg_ts = ''1500000000.000001'', author = ''U2'',
             body = ''the plan'', subtype = ''message'', parent = None\<rparr>"

definition sample_deps :: deps where
  "sample_deps =
     \<lparr>is_known_user = (\<lambda>k. k = Some ''key''),
      tokens_getitem = (\<lambda>k. if k = Some ''key'' then Inr alice else Inl TokenLookupError),
      tokens_upsert = (\<lambda>token info full. ''key''),
      has_stream_access = (\<lambda>u s. False),
      filter_streams = (\<lambda>u f. ([], [], [], if f = ''all'' then ''all'' else ''my'')),
      find_messages = (\<lambda>q ids p. ([], 0)),
      find_messages_in_stream = (\<lambda>q s p. ([], 0)),
      find_messages_around = (\<lambda>c s p. ([secret], 1)),
      stream_messages = (\<lambda>s p. ([], 0)),
      users_list = (\<lambda>domain. ''[]''),
      archive_stat = [],
      import_archive = Inr (\<lparr>source = ''slack.zip'', inserted = 0, skipped = 0, malformed = 0,
                            new_subtypes = []\<rparr>, []),
      oauth_access = (\<lambda>code uri. Api_ok \<lparr>access_token = ''xoxp-1'', scope = ''identify,read''\<rparr>),
      auth_test = (\<lambda>token. Api_ok \<lparr>team_id = ''T1'', team = ''slag'', api_user = ''alice''\<rparr>),
      static_isfile = (\<lambda>p. p = ''favicon.ico''),
      flask_send_from_directory = (\<lambda>p. p = ''favicon.ico''),
      flask_url_for = (\<lambda>endpoint. ''http://slag.example/login''),
      messages_number_per_search_request = 20,
      messages_number_per_stream_request = 100,
      local_archive_file = ''archive.zip''\<rparr>"

definition sample_request :: request where
  "sample_request =
     \<lparr>path = ''/search'', args = Map.empty, cookies = [''auth'' \<mapsto> ''key''], is_secure = False,
      x_forwarded_proto = None, url = ''http://slag.example/search'', files_archive = None\<rparr>"

text \<open>Two context searches that differ in the query text, and a search with no stream.\<close>

definition context_request :: request where
  "context_request =
     sample_request\<lparr>args := [''q'' \<mapsto> ''plan'', ''c'' \<mapsto> ''1500000000.000001'']\<rparr>"

definition other_query_request :: request where
  "other_query_request =
     sample_request\<lparr>args := [''q'' \<mapsto> ''lunch'', ''c'' \<mapsto> ''1500000000.000001''],
                    url := ''http://slag.example/search?q=lunch''\<rparr>"

text \<open>
  A server loaded as the module \<open>app\<close> (production), and the same one run as a script.
\<close>

definition production_config :: config where
  "production_config =
     \<lparr>slack_client_id = ''1.2'', slack_client_secret = ''s3cr3t'', slack_team_id = ''T1'',
      dunder_name = ''app'', debug_server = None\<rparr>"

definition local_config :: config where
  "local_config = production_config\<lparr>dunder_name := ''__main__''\<rparr>"

definition browse_request :: request where
  "browse_request = sample_request\<lparr>path := ''/browse''\<rparr>"

definition login_request :: request where
  "login_request =
     sample_request\<lparr>path := ''/login'', args := [''code'' \<mapsto> ''c0de''], cookies := Map.empty\<rparr>"


definition import_request :: request where
  "import_request = sample_request\<lparr>path := ''/import_db''\<rparr>"

text \<open>A stream listing whose page argument is not a number, and an import without a cookie.\<close>

definition bad_page_request :: request where
  "bad_page_request = browse_request\<lparr>args := [''p'' \<mapsto> ''abc'']\<rparr>"

definition anonymous_import_request :: request where
  "anonymous_import_request = import_request\<lparr>cookies := Map.empty\<rparr>"

text \<open>
  An export with two distinct messages, one of them twice, and one malformed record; and
  the empty store.
\<close>

definition sample_archive :: archive where
  "sample_archive =
     Readable ''export.zip''
       [Well_formed secret, Malformed_record,
        Well_formed (secret\<lparr>msg_ts := ''1500000000.000002'', subtype := ''bot_message''\<rparr>),
        Well_formed secret]"

definition empty_store :: store where
  "empty_store = \<lparr>messages = Map.empty, batches = []\<rparr>"

section \<open>Observations\<close>

text \<open>The result window and the total count of a rendered search page.\<close>

definition search_window :: "page act \<Rightarrow> (message list \<times> nat) option" where
  "search_window a =
     (case snd a of
        Inr (Search_htm results (Some (msg_count, q, s, c, p, n))) \<Rightarrow> Some (results, msg_count)
      | _ \<Rightarrow> None)"

section \<open>Properties\<close>

lemmas act_defs = bind_act_def seq_act_def call_def call_result_def emit_def ret_def raise_def
  lift_result_def

lemmas sample_defs = sample_deps_def sample_request_def alice_def secret_def

lemmas config_defs = production_config_def local_config_def is_production_def is_forced_debug_def

lemma fst_page_arg: "fst (page_arg r) = []"
  by (simp add: page_arg_def ret_def lift_result_def split: option.splits)

lemma page_arg_cases: "(\<exists>e. page_arg r = ([], Inl e)) \<or> (\<exists>p. page_arg r = ([], Inr p))"
  by (cases "page_arg r"; cases "snd (page_arg r)") (use fst_page_arg[of r] in auto)

subsection \<open>C1: the empty query\<close>

text \<open>
  C1 as stated fails: \<open>search\<close> inserts its record into \<open>z_search\<close> before it looks
  at the query, so a request with an empty query writes that collection.
\<close>

theorem search_empty_query_counterexample:
  "get_arg sample_request ''q'' '''' = '''' \<and>
   fst (search sample_deps sample_request) =
     [Tokens_getitem (Some ''key''), Db_insert ''z_search'' [(''user'', ''alice''), (''q'', '''')]]"
  by (simp add: search_def current_user_def get_arg_def page_arg_def sample_deps_def
      sample_request_def alice_def act_defs)

text \<open>
  C1, amended: for every /search request whose query is empty (or absent), no event of
  the handler reads or writes the archive; and when the token store knows the cookie and
  the page argument is absent or an integer, the handler looks the user up, appends one
  record to the \<open>z_search\<close> log, does nothing else, and returns the empty result set.
\<close>

theorem search_empty_query:
  assumes "get_arg r ''q'' '''' = ''''"
  shows "list_all (\<lambda>e. \<not> archive_read e \<and> \<not> archive_write e) (fst (search d r)) \<and>
         (tokens_getitem d (cookies r ''auth'') = Inr u \<and> page_arg r = ([], Inr p) \<longrightarrow>
            search d r =
              ([Tokens_getitem (cookies r ''auth''),
                Db_insert ''z_search'' [(''user'', login u), (''q'', '''')]],
               Inr (Search_htm [] None)))"
  using assms page_arg_cases[of r]
  by (cases "tokens_getitem d (cookies r ''auth'')")
     (auto simp: search_def current_user_def act_defs)

theorem search_empty_query_witness:
  "get_arg sample_request ''q'' '''' = '''' \<and>
   tokens_getitem sample_deps (cookies sample_request ''auth'') = Inr alice \<and>
   page_arg sample_request = ([], Inr 0) \<and>
   search sample_deps sample_request =
     ([Tokens_getitem (Some ''key''), Db_insert ''z_search'' [(''user'', ''alice''), (''q'', '''')]],
      Inr (Search_htm [] None))"
  using search_empty_query[of sample_request sample_deps alice 0]
  by (simp add: get_arg_def page_arg_def sample_deps_def sample_request_def alice_def ret_def)

subsection \<open>C2: the message queries and AccessControl\<close>

text \<open>
  Which message query \<open>search\<close> issues, and under which check. With a stream named, the
  query runs only after \<open>has_stream_access\<close> returned true for it; with neither stream
  nor context, it runs over the ids of \<open>filter_streams(user, 'all')\<close>; with a context
  and no stream, \<open>find_messages_around\<close> runs with the empty stream name and no check.
\<close>

lemma search_reads_characterised:
  assumes "tokens_getitem d (cookies r ''auth'') = Inr u"
    and "e \<in> set (fst (search d r))" and "message_query e"
  shows "\<exists>p. page_arg r = ([], Inr p) \<and> get_arg r ''q'' '''' \<noteq> '''' \<and>
     (if get_arg r ''s'' '''' \<noteq> '''' then
        has_stream_access d u (get_arg r ''s'' '''') \<and>
        (if get_arg r ''c'' '''' \<noteq> ''''
         then e = Find_messages_around (get_arg r ''c'' '''') (get_arg r ''s'' '''') p
         else e = Find_messages_in_stream (get_arg r ''q'' '''') (get_arg r ''s'' '''') p)
      else if get_arg r ''c'' '''' \<noteq> ''''
        then e = Find_messages_around (get_arg r ''c'' '''') '''' p
        else e = Find_messages (get_arg r ''q'' '''')
                   (stream_ids_of (filter_streams d u ''all'')) p)"
  using assms page_arg_cases[of r]
  by (auto simp: search_def current_user_def report_access_denied_def render_search_def
      act_defs Let_def split: if_splits prod.splits)

text \<open>\<open>browse\<close> reads a stream only after \<open>has_stream_access\<close> returned true for it.\<close>

lemma browse_reads_gated:
  assumes "tokens_getitem d (cookies r ''auth'') = Inr u"
    and "e \<in> set (fst (browse d r))" and "message_query e"
  shows "\<exists>p. page_arg r = ([], Inr p) \<and> get_arg r ''s'' '''' \<noteq> '''' \<and>
     has_stream_access d u (get_arg r ''s'' '''') \<and>
     e = Stream_messages (get_arg r ''s'' '''') p"
  using assms page_arg_cases[of r]
  by (auto simp: browse_def current_user_def report_access_denied_def
      act_defs Let_def split: if_splits prod.splits)

text \<open>
  C2 at the request \<open>/search?q=plan&c=1500000000.000001\<close> of a user who has access to
  no stream: the handler calls \<open>find_messages_around\<close> with the empty stream name and
  renders what it returns, although \<open>has_stream_access\<close> is false for that name, was
  never asked, and \<open>filter_streams(user, 'all')\<close> holds no stream id at all.
\<close>

theorem search_context_without_stream_ungated:
  "search sample_deps context_request =
     ([Tokens_getitem (Some ''key''),
       Db_insert ''z_search'' [(''user'', ''alice''), (''q'', ''plan'')],
       Find_messages_around ''1500000000.000001'' '''' 0],
      Inr (Search_htm [secret] (Some (1, ''plan'', '''', ''1500000000.000001'', 0, 20)))) \<and>
   \<not> has_stream_access sample_deps alice '''' \<and>
   stream_ids_of (filter_streams sample_deps alice ''all'') = []"
  by (simp add: search_def current_user_def get_arg_def page_arg_def render_search_def
      stream_ids_of_def context_request_def sample_defs act_defs Let_def)

subsection \<open>C3: hasStreamAccess and filterStreams agree\<close>

text \<open>
  C3: for every user and every stream id, \<open>hasStreamAccess\<close> is true if and only if the
  id is among the ids of the three partitions of \<open>filterStreams\<close> for the filter
  \<open>all\<close>.
\<close>

theorem access_consistent_with_filter:
  "hasStreamAccess streams u streamId \<longleftrightarrow>
     streamId \<in> set (stream_ids_of (filterStreams mine streams u ''all''))"
  by (cases "\<exists>s \<in> set streams. stream_id s = streamId \<and> visible u s")
     (auto simp: hasStreamAccess_def filterStreams_def stream_ids_of_def resolveFilter_def
        list_ex_iff Let_def image_iff intro: stream_kind.exhaust)

subsection \<open>C4: importing twice\<close>

lemma import_entry_dom:
  "dom (run_messages run) \<subseteq> dom (run_messages (import_entry known e run))"
  by (cases e) (auto simp: Let_def split: option.splits)

lemma import_entry_key:
  "(msg_stream m, msg_ts m) \<in> dom (run_messages (import_entry known (Well_formed m) run))"
  by (auto simp: Let_def split: option.splits)

lemma import_entry_new:
  "set (run_new run) \<subseteq> set (run_new (import_entry known e run))"
  by (cases e) (auto simp: Let_def split: option.splits)

lemma import_entry_subtype:
  "subtype m \<in> set known \<union> set (run_new (import_entry known (Well_formed m) run))"
  by (auto simp: Let_def split: option.splits)

lemma import_entry_malformed:
  "run_malformed (import_entry known e run) =
     run_malformed run + (if e = Malformed_record then 1 else 0)"
  by (cases e) (simp_all add: Let_def split: option.splits)

text \<open>The loop only adds keys and new subtypes.\<close>

lemma import_entries_dom:
  "dom (run_messages run) \<subseteq> dom (run_messages (import_entries known es run))"
proof (induction es arbitrary: run)
  case Nil
  show ?case by simp
next
  case (Cons e es)
  have "dom (run_messages run) \<subseteq> dom (run_messages (import_entry known e run))"
    by (rule import_entry_dom)
  also have "\<dots> \<subseteq> dom (run_messages (import_entries known es (import_entry known e run)))"
    by (rule Cons.IH)
  finally show ?case by simp
qed

lemma import_entries_new:
  "set (run_new run) \<subseteq> set (run_new (import_entries known es run))"
proof (induction es arbitrary: run)
  case Nil
  show ?case by simp
next
  case (Cons e es)
  have "set (run_new run) \<subseteq> set (run_new (import_entry known e run))"
    by (rule import_entry_new)
  also have "\<dots> \<subseteq> set (run_new (import_entries known es (import_entry known e run)))"
    by (rule Cons.IH)
  finally show ?case by simp
qed

text \<open>After the loop every message of the archive has its key in the collection.\<close>

lemma import_entries_keys:
  "Well_formed m \<in> set es \<Longrightarrow>
     (msg_stream m, msg_ts m) \<in> dom (run_messages (import_entries known es run))"
proof (induction es arbitrary: run)
  case Nil
  then show ?case by simp
next
  case (Cons e es)
  show ?case
  proof (cases "e = Well_formed m")
    case True
    have "(msg_stream m, msg_ts m) \<in> dom (run_messages (import_entry known e run))"
      unfolding True by (rule import_entry_key)
    then show ?thesis
      using import_entries_dom[of "import_entry known e run" known es] by auto
  next
    case False
    with Cons.prems have "Well_formed m \<in> set es" by simp
    then show ?thesis using Cons.IH by simp
  qed
qed

lemma import_entries_subtypes:
  "Well_formed m \<in> set es \<Longrightarrow>
     subtype m \<in> set known \<union> set (run_new (import_entries known es run))"
proof (induction es arbitrary: run)
  case Nil
  then show ?case by simp
next
  case (Cons e es)
  show ?case
  proof (cases "e = Well_formed m")
    case True
    have "subtype m \<in> set known \<union> set (run_new (import_entry known e run))"
      unfolding True by (rule import_entry_subtype)
    then show ?thesis
      using import_entries_new[of "import_entry known e run" known es] by auto
  next
    case False
    with Cons.prems have "Well_formed m \<in> set es" by simp
    then show ?thesis using Cons.IH by simp
  qed
qed

lemma import_entries_malformed:
  "run_malformed (import_entries known es run) =
     run_malformed run + length (filter (\<lambda>e. e = Malformed_record) es)"
  by (induction es arbitrary: run) (simp_all add: import_entry_malformed)

text \<open>
  A loop over records whose keys and subtypes are all known inserts nothing and finds
  nothing new.
\<close>

lemma import_entries_saturated:
  assumes "\<And>m. Well_formed m \<in> set es \<Longrightarrow>
             (msg_stream m, msg_ts m) \<in> dom (run_messages run) \<and> subtype m \<in> set known"
  shows "run_messages (import_entries known es run) = run_messages run \<and>
         run_inserted (import_entries known es run) = run_inserted run \<and>
         run_new (import_entries known es run) = run_new run"
  using assms
proof (induction es arbitrary: run)
  case Nil
  show ?case by simp
next
  case (Cons e es)
  have step: "run_messages (import_entry known e run) = run_messages run \<and>
              run_inserted (import_entry known e run) = run_inserted run \<and>
              run_new (import_entry known e run) = run_new run"
  proof (cases e)
    case (Well_formed m)
    then have "(msg_stream m, msg_ts m) \<in> dom (run_messages run)" and "subtype m \<in> set known"
      using Cons.prems[of m] by simp_all
    then show ?thesis using Well_formed by (auto simp: Let_def)
  next
    case Malformed_record
    then show ?thesis by simp
  qed
  have "\<And>m. Well_formed m \<in> set es \<Longrightarrow>
          (msg_stream m, msg_ts m) \<in> dom (run_messages (import_entry known e run)) \<and>
          subtype m \<in> set known"
    using Cons.prems step by simp
  from Cons.IH[OF this] step show ?case by simp
qed

lemma importArchive_readable:
  "\<exists>s b n. importArchive (Readable src es) s0 = Inr (s, b, n)"
  by (simp add: importArchive_def Let_def)

text \<open>
  C4: for every archive and store, a second import after a successful first one
  succeeds, its ImportBatch reports \<open>inserted = 0\<close> and no new subtype, it counts the
  same malformed records as the first run and no more, and the Messages collection is
  unchanged by it.
\<close>

theorem import_twice:
  assumes "importArchive a s0 = Inr (s1, b1, new1)"
  shows "\<exists>s2 b2. importArchive a s1 = Inr (s2, b2, []) \<and> inserted b2 = 0 \<and>
           new_subtypes b2 = [] \<and> malformed b2 = malformed b1 \<and> messages s2 = messages s1"
proof (cases a)
  case Unreadable
  with assms show ?thesis by (simp add: importArchive_def)
next
  case (Readable src es)
  define known0 where "known0 = concat (map new_subtypes (batches s0))"
  define init0 where "init0 = \<lparr>run_messages = messages s0, run_inserted = 0, run_skipped = 0,
    run_malformed = 0, run_new = []\<rparr>"
  define run1 where "run1 = import_entries known0 es init0"
  define known1 where "known1 = concat (map new_subtypes (batches s1))"
  define init1 where "init1 = \<lparr>run_messages = messages s1, run_inserted = 0, run_skipped = 0,
    run_malformed = 0, run_new = []\<rparr>"
  define run2 where "run2 = import_entries known1 es init1"
  have s1: "messages s1 = run_messages run1" "malformed b1 = run_malformed run1"
    and k1: "known1 = known0 @ run_new run1"
    using assms Readable
    by (auto simp: importArchive_def Let_def known0_def init0_def run1_def known1_def)
  have sat: "(msg_stream m, msg_ts m) \<in> dom (run_messages init1) \<and> subtype m \<in> set known1"
    if "Well_formed m \<in> set es" for m
    using import_entries_keys[OF that, of known0 init0]
      import_entries_subtypes[OF that, of known0 init0]
    by (simp add: init1_def s1 k1 run1_def)
  have unchanged: "run_messages run2 = messages s1" "run_inserted run2 = 0" "run_new run2 = []"
    using import_entries_saturated[of es init1 known1] sat
    by (simp_all add: run2_def init1_def)
  have "run_malformed run2 = run_malformed run1"
    by (simp add: run2_def run1_def import_entries_malformed init0_def init1_def)
  moreover have "importArchive a s1 =
      Inr (s1\<lparr>messages := run_messages run2,
              batches := batches s1 @
                [\<lparr>source = src, inserted = run_inserted run2, skipped = run_skipped run2,
                  malformed = run_malformed run2, new_subtypes = run_new run2\<rparr>]\<rparr>,
           \<lparr>source = src, inserted = run_inserted run2, skipped = run_skipped run2,
             malformed = run_malformed run2, new_subtypes = run_new run2\<rparr>,
           run_new run2)"
    unfolding importArchive_def Readable run2_def known1_def init1_def
    by (simp add: Let_def)
  ultimately show ?thesis
    using unchanged s1 by simp
qed

theorem import_twice_witness:
  "\<exists>s1 b1 new1 s2 b2.
     importArchive sample_archive empty_store = Inr (s1, b1, new1) \<and>
     inserted b1 = 2 \<and> skipped b1 = 1 \<and> malformed b1 = 1 \<and>
     importArchive sample_archive s1 = Inr (s2, b2, []) \<and> inserted b2 = 0 \<and>
     messages s2 = messages s1"
proof -
  obtain s1 b1 new1 where first: "importArchive sample_archive empty_store = Inr (s1, b1, new1)"
    unfolding sample_archive_def using importArchive_readable by blast
  have "map_sum id (\<lambda>(s, b, n). (inserted b, skipped b, malformed b))
          (importArchive sample_archive empty_store) = Inr (2, 1, 1)"
    by (simp add: importArchive_def sample_archive_def empty_store_def secret_def Let_def)
  with first have counts: "inserted b1 = 2 \<and> skipped b1 = 1 \<and> malformed b1 = 1"
    by simp
  from import_twice[OF first] obtain s2 b2 where
    "importArchive sample_archive s1 = Inr (s2, b2, []) \<and> inserted b2 = 0 \<and>
     messages s2 = messages s1"
    by blast
  with first counts show ?thesis by blast
qed

subsection \<open>C5: the context window does not depend on the query text\<close>

text \<open>
  C5: two /search requests with a non-empty context that agree on the cookies and on the
  arguments \<open>s\<close>, \<open>c\<close> and \<open>p\<close>, and whose queries are both non-empty, produce the same
  result window and total count and the same archive calls; the only message query
  issued is \<open>find_messages_around\<close> on the context, the stream and the page.
\<close>

theorem context_search_ignores_query:
  assumes "cookies r1 = cookies r2"
    and "args r1 ''s'' = args r2 ''s''" and "args r1 ''c'' = args r2 ''c''"
    and "args r1 ''p'' = args r2 ''p''"
    and "get_arg r1 ''q'' '''' \<noteq> ''''" and "get_arg r2 ''q'' '''' \<noteq> ''''"
    and "get_arg r1 ''c'' '''' \<noteq> ''''"
  shows "search_window (search d r1) = search_window (search d r2) \<and>
         filter archive_read (fst (search d r1)) = filter archive_read (fst (search d r2)) \<and>
         (\<forall>e \<in> set (fst (search d r1)). message_query e \<longrightarrow>
            (\<exists>p. e = Find_messages_around (get_arg r1 ''c'' '''') (get_arg r1 ''s'' '''') p))"
proof -
  have c2: "get_arg r2 ''c'' '''' = get_arg r1 ''c'' ''''"
    and s2: "get_arg r2 ''s'' '''' = get_arg r1 ''s'' ''''"
    and p2: "page_arg r2 = page_arg r1"
    using assms by (simp_all add: get_arg_def page_arg_def)
  show ?thesis
    using assms(1,5,6,7) page_arg_cases[of r1]
    by (cases "tokens_getitem d (cookies r2 ''auth'')")
       (auto simp: search_def current_user_def report_access_denied_def render_search_def
          search_window_def c2 s2 p2 act_defs Let_def split_beta split: if_splits)
qed

theorem context_search_ignores_query_witness:
  "search_window (search sample_deps context_request) = Some ([secret], 1) \<and>
   search_window (search sample_deps other_query_request) = Some ([secret], 1) \<and>
   get_arg context_request ''q'' '''' = ''plan'' \<and>
   get_arg other_query_request ''q'' '''' = ''lunch''"
  using context_search_ignores_query[of context_request other_query_request sample_deps]
  by (simp add: search_def current_user_def get_arg_def page_arg_def render_search_def
      search_window_def context_request_def other_query_request_def sample_defs act_defs Let_def)

subsection \<open>C6: the default filter of the stream listing\<close>

text \<open>
  The stream listing calls \<open>filter_streams\<close> with the filter argument, or \<open>my\<close> when
  there is none, and renders the name that \<open>filter_streams\<close> returned.
\<close>

lemma browse_listing:
  assumes "get_arg r ''s'' '''' = ''''"
    and "tokens_getitem d (cookies r ''auth'') = Inr u" and "page_arg r = ([], Inr p)"
    and "filter_streams d u (get_arg r ''filter'' ''my'') = (public, private, direct, resolved)"
  shows "browse d r =
           ([Tokens_getitem (cookies r ''auth''),
             Db_insert ''z_browse'' [(''user'', login u), (''s'', '''')],
             Filter_streams u (get_arg r ''filter'' ''my'')],
            Inr (Browse_htm public private direct resolved (full_access u)))"
  using assms by (simp add: browse_def current_user_def act_defs Let_def)

text \<open>
  C6 as stated fails: \<open>browse\<close> reads the page argument with \<open>int\<close> before it looks at
  the stream, so a stream listing with no filter argument and the page \<open>abc\<close> raises
  \<open>ValueError\<close> and \<open>filter_streams\<close> is not called.
\<close>

theorem browse_bad_page_counterexample:
  "get_arg bad_page_request ''s'' '''' = '''' \<and>
   args bad_page_request ''filter'' = None \<and>
   browse sample_deps bad_page_request = ([Tokens_getitem (Some ''key'')], Inl ValueError)"
  by (simp add: browse_def current_user_def get_arg_def page_arg_def py_int_def py_strip_def
      py_isspace_def is_digit_def bad_page_request_def browse_request_def sample_defs act_defs)

text \<open>
  C6, amended: for every /browse stream-listing request with no filter argument, whose
  auth cookie the token store knows and whose page argument is absent or an integer,
  \<open>filter_streams\<close> is called with the name \<open>my\<close>, and the filter name rendered is the
  resolved name that \<open>filter_streams\<close> returned.
\<close>

theorem browse_default_filter:
  assumes "get_arg r ''s'' '''' = ''''" and "args r ''filter'' = None"
    and "tokens_getitem d (cookies r ''auth'') = Inr u" and "page_arg r = ([], Inr p)"
    and "filter_streams d u ''my'' = (public, private, direct, resolved)"
  shows "browse d r =
           ([Tokens_getitem (cookies r ''auth''),
             Db_insert ''z_browse'' [(''user'', login u), (''s'', '''')],
             Filter_streams u ''my''],
            Inr (Browse_htm public private direct resolved (full_access u)))"
  using assms browse_listing[of r d u p "public" "private" direct resolved]
  by (simp add: get_arg_def)

theorem browse_default_filter_witness:
  "browse sample_deps browse_request =
     ([Tokens_getitem (Some ''key''),
       Db_insert ''z_browse'' [(''user'', ''alice''), (''s'', '''')],
       Filter_streams alice ''my''],
      Inr (Browse_htm [] [] [] ''my'' False))"
  using browse_default_filter[of browse_request sample_deps alice 0 "[]" "[]" "[]" "''my''"]
  by (simp add: get_arg_def page_arg_def browse_request_def sample_defs ret_def)

subsection \<open>C7 and C8: the login flow\<close>

lemma login_success_trace:
  "login_success d token a identity_only =
     ([Tokens_upsert token a (\<not> identity_only),
       Db_insert ''z_logins'' [(''user'', api_user a)],
       Set_cookie ''auth'' (tokens_upsert d token a (\<not> identity_only)),
       Streams_fetch token],
      Inr (Redirect ''/browse'' 302))"
  by (simp add: login_success_def act_defs)

text \<open>The paths of \<open>_login_with_token\<close>: crash, auth error, wrong team, success.\<close>

lemma login_with_token_cases:
  "login_with_token c d token identity_only =
     (case auth_test d token of
        Api_crash \<Rightarrow> ([Auth_test token], Inl SlackCrash)
      | Api_error err \<Rightarrow>
          ([Auth_test token, Db_insert ''z_errors'' [(''ctx'', ''auth.test''), (''msg'', err)]],
           Inr (Basic_htm ''Auth error'' [Lit (''Auth error: '' @ err)]))
      | Api_ok a \<Rightarrow>
          if team_id a \<noteq> slack_team_id c
          then ([Auth_test token], Inr (Basic_htm ''Wrong team'' [Lit (''Wrong team: '' @ team a)]))
          else ([Auth_test token,
                 Tokens_upsert token a (\<not> identity_only),
                 Db_insert ''z_logins'' [(''user'', api_user a)],
                 Set_cookie ''auth'' (tokens_upsert d token a (\<not> identity_only)),
                 Streams_fetch token],
                Inr (Redirect ''/browse'' 302)))"
  by (simp add: login_with_token_def login_success_trace act_defs split: api_result.splits)

text \<open>The paths of \<open>_login_oauth\<close>.\<close>

lemma login_oauth_cases:
  "login_oauth c d r =
     (case args r ''code'' of
        None \<Rightarrow> ([], Inl KeyError)
      | Some code \<Rightarrow>
          (case oauth_access d code (url_for c d ''login'') of
             Api_crash \<Rightarrow> ([Oauth_access code (url_for c d ''login'')], Inl SlackCrash)
           | Api_error err \<Rightarrow>
               ([Oauth_access code (url_for c d ''login''),
                 Db_insert ''z_errors'' [(''ctx'', ''oauth''), (''msg'', err)]],
                Inr (Basic_htm ''OAuth error'' [Lit (''OAuth error: '' @ err)]))
           | Api_ok oauth \<Rightarrow>
               (Oauth_access code (url_for c d ''login'') #
                  fst (login_with_token c d (access_token oauth)
                         (count_list (scope oauth) (CHR '','') = 1)),
                snd (login_with_token c d (access_token oauth)
                       (count_list (scope oauth) (CHR '','') = 1)))))"
  by (simp add: login_oauth_def act_defs Let_def split_beta
      split: api_result.splits option.splits sum.splits)

text \<open>No route but /login calls \<open>streams_fetch\<close>.\<close>

lemma current_user_cases:
  "(\<exists>e. current_user d r = ([Tokens_getitem (cookies r ''auth'')], Inl e)) \<or>
   (\<exists>u. current_user d r = ([Tokens_getitem (cookies r ''auth'')], Inr u))"
  by (cases "tokens_getitem d (cookies r ''auth'')") (simp_all add: current_user_def act_defs)

lemma report_access_denied_no_fetch:
  "Streams_fetch t \<notin> set (fst (report_access_denied d r))"
  using current_user_cases[of d r]
  by (auto simp: report_access_denied_def act_defs)

lemma search_no_fetch: "Streams_fetch t \<notin> set (fst (search d r))"
  using current_user_cases[of d r] page_arg_cases[of r] report_access_denied_no_fetch[of t d r]
  by (auto simp: search_def render_search_def act_defs Let_def split_beta split: if_splits)

lemma browse_no_fetch: "Streams_fetch t \<notin> set (fst (browse d r))"
  using current_user_cases[of d r] page_arg_cases[of r] report_access_denied_no_fetch[of t d r]
  by (auto simp: browse_def act_defs Let_def split_beta split: if_splits)

lemma logout_no_fetch: "Streams_fetch t \<notin> set (fst (logout d r))"
  by (cases "tokens_getitem d (cookies r ''auth'')") (simp_all add: logout_def act_defs Let_def)

lemma import_no_fetch:
  "Streams_fetch t \<notin> set (fst (upload c d r))" "Streams_fetch t \<notin> set (fst (import_db c d))"
  by (cases "import_archive d";
      simp add: upload_def import_db_def act_defs split_beta split: option.splits)+

lemma small_routes_no_fetch:
  "Streams_fetch t \<notin> set (fst (index d r))" "Streams_fetch t \<notin> set (fst (users d r))"
  "Streams_fetch t \<notin> set (fst (stat d))" "Streams_fetch t \<notin> set (fst (send_file d f))"
  by (simp_all add: index_def users_def stat_def send_file_def act_defs Let_def)

lemma route_streams_fetch:
  "Streams_fetch t \<in> set (fst (route c d r)) \<Longrightarrow>
     path r = ''/login'' \<and> Streams_fetch t \<in> set (fst (login_route c d r))"
  using search_no_fetch[of t d r] browse_no_fetch[of t d r] logout_no_fetch[of t d r]
    import_no_fetch small_routes_no_fetch
  by (auto simp: route_def raise_def split: if_splits list.splits)

lemma serve_streams_fetch:
  "Streams_fetch t \<in> set (fst (serve c d r)) \<Longrightarrow>
     path r = ''/login'' \<and> Streams_fetch t \<in> set (fst (login_route c d r))"
  using route_streams_fetch[of t c d r]
  by (cases "is_known_user d (cookies r ''auth'')")
     (auto simp: serve_def check_auth_def act_defs split_beta split: option.splits if_splits)

text \<open>
  C7: on the login path where the OAuth exchange and \<open>auth.test\<close> succeeded and the team
  id matched, \<open>streams_fetch(token)\<close> is called, last, after the credential was upserted
  into the token store and the auth cookie was set; whenever the login route calls
  \<open>streams_fetch\<close>, it is on that path, so on every error path it is not called; and a
  request that calls \<open>streams_fetch\<close> is a request to the login route.
\<close>

theorem streams_fetch_after_authentication:
  "(args r ''code'' = Some code \<and> code \<noteq> '''' \<and>
    oauth_access d code (url_for c d ''login'') = Api_ok oauth \<and>
    auth_test d (access_token oauth) = Api_ok a \<and> team_id a = slack_team_id c \<longrightarrow>
      login_route c d r =
        ([Oauth_access code (url_for c d ''login''),
          Auth_test (access_token oauth),
          Tokens_upsert (access_token oauth) a (count_list (scope oauth) (CHR '','') \<noteq> 1),
          Db_insert ''z_logins'' [(''user'', api_user a)],
          Set_cookie ''auth''
            (tokens_upsert d (access_token oauth) a (count_list (scope oauth) (CHR '','') \<noteq> 1)),
          Streams_fetch (access_token oauth)],
         Inr (Redirect ''/browse'' 302))) \<and>
   (Streams_fetch t \<in> set (fst (login_route c d r)) \<longrightarrow>
      (\<exists>code oauth a. args r ''code'' = Some code \<and> code \<noteq> '''' \<and>
         oauth_access d code (url_for c d ''login'') = Api_ok oauth \<and> t = access_token oauth \<and>
         auth_test d t = Api_ok a \<and> team_id a = slack_team_id c)) \<and>
   (Streams_fetch t \<in> set (fst (serve c d r)) \<longrightarrow>
      path r = ''/login'' \<and> Streams_fetch t \<in> set (fst (login_route c d r)))"
proof (intro conjI)
  show "Streams_fetch t \<in> set (fst (serve c d r)) \<longrightarrow>
      path r = ''/login'' \<and> Streams_fetch t \<in> set (fst (login_route c d r))"
    using serve_streams_fetch[of t c d r] by blast
qed (auto simp: login_route_def login_oauth_cases login_with_token_cases ret_def Let_def
      split: option.splits api_result.splits if_splits)

theorem streams_fetch_after_authentication_witness:
  "login_route local_config sample_deps login_request =
     ([Oauth_access ''c0de'' ''http://slag.example/login'',
       Auth_test ''xoxp-1'',
       Tokens_upsert ''xoxp-1'' \<lparr>team_id = ''T1'', team = ''slag'', api_user = ''alice''\<rparr> False,
       Db_insert ''z_logins'' [(''user'', ''alice'')],
       Set_cookie ''auth'' ''key'',
       Streams_fetch ''xoxp-1''],
      Inr (Redirect ''/browse'' 302))"
  using streams_fetch_after_authentication[of login_request "''c0de''" sample_deps local_config
      "\<lparr>access_token = ''xoxp-1'', scope = ''identify,read''\<rparr>"
      "\<lparr>team_id = ''T1'', team = ''slag'', api_user = ''alice''\<rparr>"]
  by (simp add: login_request_def sample_defs config_defs url_for_def)

text \<open>
  C8: on a successful login the credential is stored with \<open>full_access\<close> false exactly
  when the granted scope string has exactly one comma; no other value is ever stored by
  that login.
\<close>

theorem stored_scope_flag:
  assumes "args r ''code'' = Some code"
    and "oauth_access d code (url_for c d ''login'') = Api_ok oauth"
    and "auth_test d (access_token oauth) = Api_ok a" and "team_id a = slack_team_id c"
  shows "Tokens_upsert (access_token oauth) a (count_list (scope oauth) (CHR '','') \<noteq> 1)
           \<in> set (fst (login_oauth c d r)) \<and>
         (\<forall>t a' full. Tokens_upsert t a' full \<in> set (fst (login_oauth c d r)) \<longrightarrow>
            full = (count_list (scope oauth) (CHR '','') \<noteq> 1))"
  using assms by (auto simp: login_oauth_cases login_with_token_cases)

theorem stored_scope_flag_witness:
  "Tokens_upsert ''xoxp-1'' \<lparr>team_id = ''T1'', team = ''slag'', api_user = ''alice''\<rparr> False
     \<in> set (fst (login_oauth local_config sample_deps login_request)) \<and>
   count_list ''identify,read'' (CHR '','') = 1"
  using stored_scope_flag[of login_request "''c0de''" sample_deps local_config
      "\<lparr>access_token = ''xoxp-1'', scope = ''identify,read''\<rparr>"
      "\<lparr>team_id = ''T1'', team = ''slag'', api_user = ''alice''\<rparr>"]
  by (simp add: login_request_def sample_defs config_defs url_for_def)

subsection \<open>C9: requests without a known user\<close>




subsection \<open>C10: the import routes\<close>

lemma check_auth_known:
  "is_known_user d (cookies r ''auth'') \<Longrightarrow>
     check_auth d r = ([Tokens_is_known_user (cookies r ''auth'')], Inr None)"
  by (simp add: check_auth_def act_defs)

lemma check_auth_trace:
  "fst (check_auth d r) = [Tokens_is_known_user (cookies r ''auth'')]"
  by (simp add: check_auth_def act_defs)

text \<open>Outside production \<open>import_db\<close> renders what \<open>import_archive\<close> returned.\<close>

lemma import_db_renders:
  "\<not> is_production c \<Longrightarrow> import_archive d = Inr (result, types_new) \<Longrightarrow>
     import_db c d =
       ([Import_archive],
        Inr (Basic_htm ''Archive import complete''
               [Lit ''Import complete!<br />'', Str_batch result, Lit ''<br/>'',
                Str_types types_new]))"
  by (simp add: import_db_def act_defs)

text \<open>
  C10 as stated fails: the authentication hook runs before the handler, so in
  production a request to /import_db without a known cookie is answered with the
  login-redirect page, not with the access-denied redirect.
\<close>

theorem import_login_counterexample:
  "is_production production_config \<and>
   path anonymous_import_request = ''/import_db'' \<and>
   serve production_config sample_deps anonymous_import_request =
     ([Tokens_is_known_user None], Inr (Redirect_htm ''/login'' ''Auth required''))"
  by (simp add: serve_def redirect_to_https_def check_auth_def anonymous_import_request_def
      import_request_def sample_defs config_defs act_defs)

text \<open>
  C10, amended: the import handlers look at production mode only, never at the user. In
  production \<open>upload\<close> and \<open>import_db\<close> return the access-denied redirect with no
  effect; no request to /import or /import_db reaches \<open>import_archive\<close>; and the
  request of a known user to one of them that is neither secure nor forwarded as http
  is answered with the access-denied redirect. Outside production \<open>import_db\<close> calls
  \<open>import_archive\<close>, and so does the request of any known user to /import_db.
\<close>

theorem import_routes_production_gate:
  "(is_production c \<longrightarrow>
      upload c d r = ([], Inr (Redirect_htm ''/browse'' ''Access denied'')) \<and>
      import_db c d = ([], Inr (Redirect_htm ''/browse'' ''Access denied'')) \<and>
      (path r = ''/import'' \<or> path r = ''/import_db'' \<longrightarrow>
         Import_archive \<notin> set (fst (serve c d r)) \<and>
         (is_known_user d (cookies r ''auth'') \<and> \<not> is_secure r \<and>
          x_forwarded_proto r \<noteq> Some ''http'' \<longrightarrow>
            serve c d r =
              ([Tokens_is_known_user (cookies r ''auth'')],
               Inr (Redirect_htm ''/browse'' ''Access denied''))))) \<and>
   (\<not> is_production c \<longrightarrow>
      fst (import_db c d) = [Import_archive] \<and>
      (path r = ''/import_db'' \<and> is_known_user d (cookies r ''auth'') \<longrightarrow>
         fst (serve c d r) = [Tokens_is_known_user (cookies r ''auth''), Import_archive]))"
proof -
  have prod_upload: "upload c d r = ([], Inr (Redirect_htm ''/browse'' ''Access denied''))"
    if "is_production c" using that by (simp add: upload_def ret_def)
  have prod_import: "import_db c d = ([], Inr (Redirect_htm ''/browse'' ''Access denied''))"
    if "is_production c" using that by (simp add: import_db_def ret_def)
  have local_import: "fst (import_db c d) = [Import_archive]"
    if "\<not> is_production c" using that
    by (cases "import_archive d") (simp_all add: import_db_def act_defs split_beta)
  have prod_serve: "Import_archive \<notin> set (fst (serve c d r))"
    if "is_production c" and "path r = ''/import'' \<or> path r = ''/import_db''"
    using that prod_upload prod_import
    by (cases "check_auth d r"; cases "snd (check_auth d r)")
       (use check_auth_trace[of d r] in
         \<open>auto simp: serve_def route_def bind_act_def ret_def redirect_to_https_def
            split: option.splits\<close>)
  have prod_known: "serve c d r =
      ([Tokens_is_known_user (cookies r ''auth'')],
       Inr (Redirect_htm ''/browse'' ''Access denied''))"
    if "is_production c" and "path r = ''/import'' \<or> path r = ''/import_db''"
      and "is_known_user d (cookies r ''auth'')" and "\<not> is_secure r"
      and "x_forwarded_proto r \<noteq> Some ''http''"
    using that prod_upload prod_import check_auth_known[of d r]
    by (auto simp: serve_def route_def redirect_to_https_def bind_act_def)
  have local_serve: "fst (serve c d r) = [Tokens_is_known_user (cookies r ''auth''), Import_archive]"
    if "\<not> is_production c" and "path r = ''/import_db''" and "is_known_user d (cookies r ''auth'')"
    using that local_import check_auth_known[of d r]
    by (cases "import_db c d")
       (simp add: serve_def route_def redirect_to_https_def bind_act_def split: sum.splits)
  show ?thesis
    using prod_upload prod_import local_import prod_serve prod_known local_serve by blast
qed

theorem import_routes_production_gate_witness:
  "serve production_config sample_deps import_request =
     ([Tokens_is_known_user (Some ''key'')], Inr (Redirect_htm ''/browse'' ''Access denied'')) \<and>
   fst (serve local_config sample_deps import_request) =
     [Tokens_is_known_user (Some ''key''), Import_archive]"
  using import_routes_production_gate[of production_config sample_deps import_request]
    import_routes_production_gate[of local_config sample_deps import_request]
  by (simp add: serve_def route_def redirect_to_https_def check_auth_def import_db_def
      import_request_def sample_defs config_defs act_defs)

end
